theory Spec2Isabelle
  imports Main
begin

section \<open>Python values, strings and exceptions\<close>

text \<open>
  The program is \<^verbatim>\<open>src/nfe_parser.py\<close>: the class \<^verbatim>\<open>NFEParser\<close> with the methods
  \<^verbatim>\<open>parse_xml_file\<close>, \<^verbatim>\<open>_get_text\<close> and \<^verbatim>\<open>process_folder\<close>. A Python \<^verbatim>\<open>str\<close> is a
  \<^typ>\<open>string\<close>; the code points of the program's own literals are all below 256
  (\<^verbatim>\<open>Sa\<close>\<open>\<dots>\<close>\<^verbatim>\<open>da\<close> holds U+00ED, the two messages of \<^verbatim>\<open>process_folder\<close> hold U+00E3),
  so a \<^typ>\<open>char\<close> stands for one code point.

  An exception is a value: every \<^verbatim>\<open>raise\<close> of the program and of the library calls it
  makes is an \<open>Inl\<close> of the result type \<open>exn + 'a\<close>. All the classes below derive from
  Python's \<^verbatim>\<open>Exception\<close>; the string is what \<^verbatim>\<open>str(e)\<close> returns.
\<close>

datatype exn =
    ValueError string
  | NotADirectoryError string
  | FileNotFoundError string
  | OSError string
  | XMLSyntaxError string
  | SyntaxError string
  | AttributeError string
  | IndexError string
  | KeyError string

fun str_exn :: "exn \<Rightarrow> string" where
  "str_exn (ValueError m) = m"
| "str_exn (NotADirectoryError m) = m"
| "str_exn (FileNotFoundError m) = m"
| "str_exn (OSError m) = m"
| "str_exn (XMLSyntaxError m) = m"
| "str_exn (SyntaxError m) = m"
| "str_exn (AttributeError m) = m"
| "str_exn (IndexError m) = m"
| "str_exn (KeyError m) = m"

text \<open>Sequencing of calls that may raise: the first exception ends the computation.\<close>

definition bnd :: "exn + 'a \<Rightarrow> ('a \<Rightarrow> exn + 'b) \<Rightarrow> exn + 'b" where
  "bnd m f = (case m of Inl e \<Rightarrow> Inl e | Inr x \<Rightarrow> f x)"

fun sequence :: "(exn + 'a) list \<Rightarrow> exn + 'a list" where
  "sequence [] = Inr []"
| "sequence (m # ms) =
     (case m of Inl e \<Rightarrow> Inl e
      | Inr x \<Rightarrow> (case sequence ms of Inl e \<Rightarrow> Inl e | Inr xs \<Rightarrow> Inr (x # xs)))"

text \<open>\<^verbatim>\<open>s.startswith(p)\<close> and \<^verbatim>\<open>s.endswith(p)\<close>.\<close>

fun startswith :: "string \<Rightarrow> string \<Rightarrow> bool" where
  "startswith s [] = True"
| "startswith [] (p # ps) = False"
| "startswith (c # cs) (p # ps) = (c = p \<and> startswith cs ps)"

definition endswith :: "string \<Rightarrow> string \<Rightarrow> bool" where
  "endswith s p = startswith (rev s) (rev p)"

text \<open>
  \<^verbatim>\<open>s.lower()\<close> on code points below 256: the letters A to Z, and the Latin-1 capitals
  U+00C0 to U+00DE without the multiplication sign U+00D7, move up by 32.
\<close>

definition lower_char :: "char \<Rightarrow> char" where
  "lower_char c =
     (let n = (of_char c :: nat) in
      if (65 \<le> n \<and> n \<le> 90) \<or> (192 \<le> n \<and> n \<le> 222 \<and> n \<noteq> 215)
      then char_of (n + 32) else c)"

definition lower :: "string \<Rightarrow> string" where
  "lower s = map lower_char s"

text \<open>
  \<^verbatim>\<open>s.strip()\<close>: the white space of Python below 256 is U+0009 to U+000D, U+001C to
  U+0020, U+0085 and U+00A0.
\<close>

definition is_space :: "char \<Rightarrow> bool" where
  "is_space c =
     (let n = (of_char c :: nat) in
      (9 \<le> n \<and> n \<le> 13) \<or> (28 \<le> n \<and> n \<le> 32) \<or> n = 133 \<or> n = 160)"

definition strip :: "string \<Rightarrow> string" where
  "strip s = rev (dropWhile is_space (rev (dropWhile is_space s)))"

text \<open>\<^verbatim>\<open>s.split(c)\<close> for a separator of one character: never the empty list.\<close>

fun split_char :: "char \<Rightarrow> string \<Rightarrow> string list" where
  "split_char c [] = [[]]"
| "split_char c (x # xs) =
     (if x = c then [] # split_char c xs
      else (case split_char c xs of
              [] \<Rightarrow> [[x]]
            | p # ps \<Rightarrow> (x # p) # ps))"

text \<open>
  \<^verbatim>\<open>s.replace(old, new)\<close>: every occurrence of \<^verbatim>\<open>old\<close>, found from the left and not
  overlapping, is replaced. For the empty \<^verbatim>\<open>old\<close> Python puts \<^verbatim>\<open>new\<close> before every
  character and at the end.
\<close>

fun replace_nonempty :: "string \<Rightarrow> string \<Rightarrow> string \<Rightarrow> string" where
  "replace_nonempty old new [] = []"
| "replace_nonempty old new (c # cs) =
     (if startswith (c # cs) old
      then new @ replace_nonempty old new (drop (length old - 1) cs)
      else c # replace_nonempty old new cs)"

definition replace :: "string \<Rightarrow> string \<Rightarrow> string \<Rightarrow> string" where
  "replace s old new =
     (if old = [] then new @ concat (map (\<lambda>c. c # new) s)
      else replace_nonempty old new s)"

text \<open>\<^verbatim>\<open>os.path.basename\<close> and \<^verbatim>\<open>os.path.join\<close> of two parts, as \<^verbatim>\<open>posixpath\<close> has them.\<close>

definition os_path_basename :: "string \<Rightarrow> string" where
  "os_path_basename p = rev (takeWhile (\<lambda>c. c \<noteq> CHR ''/'') (rev p))"

definition os_path_join :: "string \<Rightarrow> string \<Rightarrow> string" where
  "os_path_join a b =
     (if startswith b ''/'' then b
      else if a = [] \<or> endswith a ''/'' then a @ b
      else a @ ''/'' @ b)"

section \<open>The parsed document (lxml)\<close>

text \<open>
  What \<^verbatim>\<open>etree.parse(file_path).getroot()\<close> returns. An element has its tag in the
  notation of lxml (\<^verbatim>\<open>{uri}local\<close> for an element in a namespace, \<^verbatim>\<open>local\<close> for one in
  none), its attributes, its \<^verbatim>\<open>text\<close> (\<^verbatim>\<open>None\<close> or a string) and its children. A comment
  or a processing instruction is a node of the tree too (\<open>Special\<close>): \<^verbatim>\<open>root.iter()\<close>
  yields it, its \<^verbatim>\<open>tag\<close> is a function and not a string, and it has no children.
\<close>

datatype node =
    Element string "(string \<times> string) list" "string option" "node list"
  | Special

fun descendants :: "node \<Rightarrow> node list" where
  "descendants (Element tg at tx cs) = concat (map (\<lambda>c. c # descendants c) cs)"
| "descendants Special = []"

fun has_tag :: "string \<Rightarrow> node \<Rightarrow> bool" where
  "has_tag t (Element tg at tx cs) = (tg = t)"
| "has_tag t Special = False"

fun child_nodes :: "node \<Rightarrow> node list" where
  "child_nodes (Element tg at tx cs) = cs"
| "child_nodes Special = []"

text \<open>\<^verbatim>\<open>elem.get(key, default)\<close>.\<close>

fun attrib_get :: "node \<Rightarrow> string \<Rightarrow> string \<Rightarrow> string" where
  "attrib_get (Element tg at tx cs) k d = (case map_of at k of Some v \<Rightarrow> v | None \<Rightarrow> d)"
| "attrib_get Special k d = d"

fun elem_text :: "node \<Rightarrow> string option" where
  "elem_text (Element tg at tx cs) = tx"
| "elem_text Special = None"

subsection \<open>The path language of \<^verbatim>\<open>find\<close> and \<^verbatim>\<open>findall\<close>\<close>

text \<open>
  \<^verbatim>\<open>elem.find(path, namespaces)\<close> is \<^verbatim>\<open>lxml._elementpath.find\<close>: the path is cut into
  tokens, the tokens are compiled into a list of selection steps, and the steps run on the
  element. The paths of the program are built from \<^verbatim>\<open>.\<close>, \<^verbatim>\<open>/\<close>, \<^verbatim>\<open>//\<close> and names
  (\<^verbatim>\<open>.//nfe:infNFe\<close>, \<^verbatim>\<open>.//ide\<close>, \<^verbatim>\<open>.//det\<close>, and \<^verbatim>\<open>.//\<close> before the second argument of
  \<^verbatim>\<open>_get_text\<close>); the model covers these tokens. A name runs to the next \<^verbatim>\<open>/\<close>; a
  \<^verbatim>\<open>.\<close> where a token starts is a token of its own.
\<close>

datatype token = Dot | Slash | DSlash | Name string

function tokenize :: "string \<Rightarrow> token list" where
  "tokenize [] = []"
| "tokenize (c # cs) =
     (if c = CHR ''/'' then
        (case cs of
           [] \<Rightarrow> [Slash]
         | d # ds \<Rightarrow> if d = CHR ''/'' then DSlash # tokenize ds else Slash # tokenize cs)
      else if c = CHR ''.'' then Dot # tokenize cs
      else Name (c # takeWhile (\<lambda>x. x \<noteq> CHR ''/'') cs)
             # tokenize (dropWhile (\<lambda>x. x \<noteq> CHR ''/'') cs))"
  by pat_completeness auto
termination
  by (relation "measure length") (auto simp: length_dropWhile_le less_Suc_eq_le)

text \<open>
  \<^verbatim>\<open>xpath_tokenizer\<close> resolves a prefix: a name with a colon, not starting with \<^verbatim>\<open>{\<close>,
  becomes \<^verbatim>\<open>{uri}local\<close> with the URI the \<^verbatim>\<open>namespaces\<close> argument gives its prefix;
  an unknown prefix is a \<^verbatim>\<open>SyntaxError\<close>. The program's map has no default namespace.
\<close>

definition resolve_prefix :: "(string \<times> string) list \<Rightarrow> token \<Rightarrow> exn + token" where
  "resolve_prefix namespaces tok =
     (case tok of
        Name t \<Rightarrow>
          if t \<noteq> [] \<and> hd t \<noteq> CHR ''{'' \<and> CHR '':'' \<in> set t then
            (let prefix = takeWhile (\<lambda>x. x \<noteq> CHR '':'') t;
                 uri = tl (dropWhile (\<lambda>x. x \<noteq> CHR '':'') t)
             in case map_of namespaces prefix of
                  None \<Rightarrow> Inl (SyntaxError (''prefix '' @ [CHR 0x27] @ prefix @ [CHR 0x27]
                                            @ '' not found in prefix map''))
                | Some ns \<Rightarrow> Inr (Name (''{'' @ ns @ ''}'' @ uri)))
          else Inr (Name t)
      | _ \<Rightarrow> Inr tok)"

definition xpath_tokenizer :: "string \<Rightarrow> (string \<times> string) list \<Rightarrow> exn + token list" where
  "xpath_tokenizer pattern namespaces = sequence (map (resolve_prefix namespaces) (tokenize pattern))"

text \<open>
  The compilation loop of \<^verbatim>\<open>_build_path_iterator\<close>: each token is handed to its
  \<^verbatim>\<open>prepare_\<close> function, and one \<^verbatim>\<open>/\<close> after a step is skipped. \<^verbatim>\<open>prepare_descendant\<close>
  reads the token after \<^verbatim>\<open>//\<close> and accepts a name only: on anything else it raises
  \<^verbatim>\<open>SyntaxError("invalid descendant")\<close>. There is no entry for \<^verbatim>\<open>/\<close> in the table of
  operations, so a \<^verbatim>\<open>/\<close> where a step is expected is a \<^verbatim>\<open>KeyError\<close>.
\<close>

datatype step = Self | Child string | Descendant string

definition push :: "step \<Rightarrow> exn + step list \<Rightarrow> exn + step list" where
  "push st r = (case r of Inl e \<Rightarrow> Inl e | Inr sts \<Rightarrow> Inr (st # sts))"

fun build_selector :: "token list \<Rightarrow> exn + step list" where
  "build_selector [] = Inr []"
| "build_selector (Dot # Slash # ts) = push Self (build_selector ts)"
| "build_selector (Dot # ts) = push Self (build_selector ts)"
| "build_selector (Name t # Slash # ts) = push (Child t) (build_selector ts)"
| "build_selector (Name t # ts) = push (Child t) (build_selector ts)"
| "build_selector (DSlash # Name t # Slash # ts) = push (Descendant t) (build_selector ts)"
| "build_selector (DSlash # Name t # ts) = push (Descendant t) (build_selector ts)"
| "build_selector [DSlash] = Inl (SyntaxError ''invalid path'')"
| "build_selector (DSlash # u # ts) = Inl (SyntaxError ''invalid descendant'')"
| "build_selector (Slash # ts) = Inl (KeyError ([CHR 0x27] @ ''/'' @ [CHR 0x27]))"

text \<open>
  A step maps the nodes selected so far to the next selection, in document order. A name
  selects the elements whose tag is that very string, so a name without \<^verbatim>\<open>{uri}\<close> selects
  elements in no namespace only. \<^verbatim>\<open>.//name\<close> looks at the descendants of the element, not
  at the element itself.
\<close>

fun apply_step :: "step \<Rightarrow> node list \<Rightarrow> node list" where
  "apply_step Self ns = ns"
| "apply_step (Child t) ns = concat (map (\<lambda>n. filter (has_tag t) (child_nodes n)) ns)"
| "apply_step (Descendant t) ns = concat (map (\<lambda>n. filter (has_tag t) (descendants n)) ns)"

definition findall :: "node \<Rightarrow> string \<Rightarrow> (string \<times> string) list \<Rightarrow> exn + node list" where
  "findall elem path namespaces =
     (if startswith path ''/'' then Inl (SyntaxError ''cannot use absolute path on element'')
      else bnd (xpath_tokenizer path namespaces) (\<lambda>toks.
        if toks = [] then Inl (SyntaxError ''empty path expression'')
        else bnd (build_selector toks) (\<lambda>sel. Inr (fold apply_step sel [elem]))))"

definition find :: "node \<Rightarrow> string \<Rightarrow> (string \<times> string) list \<Rightarrow> exn + node option" where
  "find elem path namespaces =
     bnd (findall elem path namespaces)
       (\<lambda>r. Inr (case r of [] \<Rightarrow> None | x # xs \<Rightarrow> Some x))"

section \<open>The file system\<close>

text \<open>
  A path names a directory, with the names \<^verbatim>\<open>os.listdir\<close> returns in the order it returns
  them, or a file; of a file the model keeps what \<^verbatim>\<open>etree.parse\<close> makes of it: the root
  of the parsed document, or the message of the \<^verbatim>\<open>XMLSyntaxError\<close>. A path that names
  nothing does not exist. \<^verbatim>\<open>etree.parse\<close> of a directory or of a missing path raises an
  \<^verbatim>\<open>OSError\<close>; access rights are not modelled.
\<close>

datatype content = Malformed string | Document node

datatype entry = Directory "string list" | RegularFile content

type_synonym filesystem = "string \<Rightarrow> entry option"

definition os_path_exists :: "filesystem \<Rightarrow> string \<Rightarrow> bool" where
  "os_path_exists fs p = (fs p \<noteq> None)"

definition os_listdir :: "filesystem \<Rightarrow> string \<Rightarrow> exn + string list" where
  "os_listdir fs p =
     (case fs p of
        None \<Rightarrow> Inl (FileNotFoundError (''[Errno 2] No such file or directory: '' @ p))
      | Some (RegularFile c) \<Rightarrow> Inl (NotADirectoryError (''[Errno 20] Not a directory: '' @ p))
      | Some (Directory names) \<Rightarrow> Inr names)"

definition etree_parse :: "filesystem \<Rightarrow> string \<Rightarrow> exn + node" where
  "etree_parse fs p =
     (case fs p of
        Some (RegularFile (Document root)) \<Rightarrow> Inr root
      | Some (RegularFile (Malformed msg)) \<Rightarrow> Inl (XMLSyntaxError msg)
      | _ \<Rightarrow> Inl (OSError (''Error reading file '' @ p)))"

section \<open>NFEParser\<close>

text \<open>
  A value of a record's field is a string or, for \<^verbatim>\<open>qtd_itens\<close>, an integer. A record is
  the \<^verbatim>\<open>dict\<close> the method builds: the keys in the order of insertion, each once.
\<close>

datatype pyval = PStr string | PInt int

type_synonym pydict = "(string \<times> pyval) list"

record nfe_parser =
  data :: "pydict list"

definition NAMESPACES :: "(string \<times> string) list" where
  "NAMESPACES = [(''nfe'', ''http://www.portalfiscal.inf.br/nfe'')]"

text \<open>
  \<^verbatim>\<open>_get_text(parent, tag, default)\<close>, lines 96 to 114. The path handed to \<^verbatim>\<open>find\<close> is
  \<^verbatim>\<open>.//\<close> followed by the argument.
\<close>

definition get_text :: "node option \<Rightarrow> string \<Rightarrow> string \<Rightarrow> exn + string" where
  "get_text parent tg dflt =
     (case parent of
        None \<Rightarrow> Inr dflt
      | Some p \<Rightarrow>
          bnd (find p (''.//'' @ tg) []) (\<lambda>elem.
            case elem of
              None \<Rightarrow> Inr dflt
            | Some el \<Rightarrow>
                (case elem_text el of
                   None \<Rightarrow> Inr dflt
                 | Some t \<Rightarrow> if t \<noteq> [] then Inr (strip t) else Inr dflt)))"

text \<open>\<^verbatim>\<open>a or b\<close> on two strings, \<^verbatim>\<open>b\<close> evaluated only when \<^verbatim>\<open>a\<close> is empty.\<close>

definition or_else :: "exn + string \<Rightarrow> exn + string \<Rightarrow> exn + string" where
  "or_else a b = bnd a (\<lambda>x. if x \<noteq> [] then Inr x else b)"

text \<open>
  Lines 41 to 43: the loop over \<^verbatim>\<open>root.iter()\<close> visits the root and every node below it
  in document order and rewrites the tag of each in place; the function returns the tree
  after the loop, or the exception of the first node that raises. The \<^verbatim>\<open>tag\<close> of a
  comment or processing instruction has no \<^verbatim>\<open>startswith\<close> (the wording of the message is
  the library's); \<^verbatim>\<open>split('}')[1]\<close> raises when the tag holds no closing brace.
\<close>

fun strip_namespaces :: "node \<Rightarrow> exn + node" where
  "strip_namespaces Special =
     Inl (AttributeError (''object has no attribute '' @ [CHR 0x27] @ ''startswith'' @ [CHR 0x27]))"
| "strip_namespaces (Element tg at tx cs) =
     bnd (if startswith tg ''{'' then
            (case split_char (CHR ''}'') tg of
               a # b # r \<Rightarrow> Inr b
             | _ \<Rightarrow> Inl (IndexError ''list index out of range''))
          else Inr tg) (\<lambda>tg'.
     bnd (sequence (map strip_namespaces cs)) (\<lambda>cs'.
     Inr (Element tg' at tx cs')))"

text \<open>
  Lines 36 to 44: the invoice-information node, looked up with the namespace first and,
  when that finds nothing, by its bare name in the tree with the namespaces stripped.
\<close>

definition locate_infNFe :: "node \<Rightarrow> exn + node option" where
  "locate_infNFe root =
     bnd (find root ''.//nfe:infNFe'' NAMESPACES) (\<lambda>nfe_info.
       case nfe_info of
         Some n \<Rightarrow> Inr (Some n)
       | None \<Rightarrow> bnd (strip_namespaces root) (\<lambda>root'. find root' ''.//infNFe'' []))"

text \<open>Lines 50 to 88: the record of a located invoice-information node.\<close>

definition extract_data :: "string \<Rightarrow> node \<Rightarrow> exn + pydict" where
  "extract_data file_path nfe_info =
     bnd (find nfe_info ''.//ide'' []) (\<lambda>ide.
     bnd (find nfe_info ''.//emit'' []) (\<lambda>emit.
     bnd (find nfe_info ''.//dest'' []) (\<lambda>dest.
     bnd (find nfe_info ''.//total'' []) (\<lambda>total.
     bnd (get_text ide ''nNF'' '''') (\<lambda>numero_nf.
     bnd (get_text ide ''serie'' '''') (\<lambda>serie.
     bnd (or_else (get_text ide ''dhEmi'' '''') (get_text ide ''dEmi'' '''')) (\<lambda>data_emissao.
     bnd (Inr (replace (attrib_get nfe_info ''Id'' '''') ''NFe'' '''')) (\<lambda>chave_acesso.
     bnd (get_text emit ''CNPJ'' '''') (\<lambda>emit_cnpj.
     bnd (get_text emit ''xNome'' '''') (\<lambda>emit_nome.
     bnd (get_text emit ''xFant'' '''') (\<lambda>emit_fantasia.
     bnd (or_else (get_text dest ''CNPJ'' '''') (get_text dest ''CPF'' '''')) (\<lambda>dest_cnpj.
     bnd (get_text dest ''xNome'' '''') (\<lambda>dest_nome.
     bnd (get_text total ''.//vProd'' '''') (\<lambda>valor_produtos.
     bnd (get_text total ''.//vDesc'' '''') (\<lambda>valor_desconto.
     bnd (get_text total ''.//vFrete'' '''') (\<lambda>valor_frete.
     bnd (get_text total ''.//vNF'' '''') (\<lambda>valor_total.
     bnd (get_text total ''.//vICMS'' '''') (\<lambda>valor_icms.
     bnd (get_text total ''.//vIPI'' '''') (\<lambda>valor_ipi.
     bnd (get_text ide ''natOp'' '''') (\<lambda>natureza_operacao.
     bnd (get_text ide ''tpNF'' '''') (\<lambda>tpNF.
     bnd (findall nfe_info ''.//det'' []) (\<lambda>items.
     Inr [(''arquivo'', PStr (os_path_basename file_path)),
          (''numero_nf'', PStr numero_nf),
          (''serie'', PStr serie),
          (''data_emissao'', PStr data_emissao),
          (''chave_acesso'', PStr chave_acesso),
          (''emit_cnpj'', PStr emit_cnpj),
          (''emit_nome'', PStr emit_nome),
          (''emit_fantasia'', PStr emit_fantasia),
          (''dest_cnpj'', PStr dest_cnpj),
          (''dest_nome'', PStr dest_nome),
          (''valor_produtos'', PStr valor_produtos),
          (''valor_desconto'', PStr valor_desconto),
          (''valor_frete'', PStr valor_frete),
          (''valor_total'', PStr valor_total),
          (''valor_icms'', PStr valor_icms),
          (''valor_ipi'', PStr valor_ipi),
          (''natureza_operacao'', PStr natureza_operacao),
          (''tipo_operacao'',
             PStr (if tpNF = ''0'' then ''Entrada'' else ''Sa'' @ [CHR 0xED] @ ''da'')),
          (''qtd_itens'', PInt (int (length items)))]))))))))))))))))))))))"

text \<open>
  The body of the \<^verbatim>\<open>try\<close>, lines 32 to 88: an exception, \<^verbatim>\<open>None\<close> (line 47) or the record.
\<close>

definition parse_xml_body :: "filesystem \<Rightarrow> string \<Rightarrow> exn + pydict option" where
  "parse_xml_body fs file_path =
     bnd (etree_parse fs file_path) (\<lambda>root.
     bnd (locate_infNFe root) (\<lambda>nfe_info.
       case nfe_info of
         None \<Rightarrow> Inr None
       | Some n \<Rightarrow> bnd (extract_data file_path n) (\<lambda>d. Inr (Some d))))"

text \<open>
  \<^verbatim>\<open>parse_xml_file\<close>, lines 21 to 94: the \<^verbatim>\<open>except Exception\<close> turns an exception of the
  body into the record of lines 91 to 94. The result type still has room for an exception
  that leaves the method.
\<close>

definition parse_xml_file :: "filesystem \<Rightarrow> string \<Rightarrow> exn + pydict option" where
  "parse_xml_file fs file_path =
     (case parse_xml_body fs file_path of
        Inl e \<Rightarrow> Inr (Some [(''arquivo'', PStr (os_path_basename file_path)),
                             (''erro'', PStr (str_exn e))])
      | Inr r \<Rightarrow> Inr r)"

section \<open>The table (pandas)\<close>

text \<open>
  A cell of the \<^verbatim>\<open>DataFrame\<close>: a string or an integer of a record, the missing value
  \<^verbatim>\<open>NaN\<close>, a number \<^verbatim>\<open>to_numeric\<close> read, a timestamp \<^verbatim>\<open>to_datetime\<close> read, or \<^verbatim>\<open>NaT\<close>.
  The numbers and the timestamps of pandas are type parameters: the program only stores
  them. \<^verbatim>\<open>pd.DataFrame(list of dicts)\<close> has one row for each dict, in order; its columns
  are the keys of all the dicts in the order of their first appearance; a key a dict lacks
  is \<^verbatim>\<open>NaN\<close> in its row. A row is kept as the list of its cells, each with its column.
  That pandas stores the integers of a column with a missing value as floats is not
  modelled: the program never reads \<^verbatim>\<open>qtd_itens\<close> back.
\<close>

datatype ('f, 't) cell = CStr string | CInt int | CFloat 'f | NaN | Timestamp 't | NaT

record ('f, 't) dataframe =
  columns :: "string list"
  rows :: "(string \<times> ('f, 't) cell) list list"

fun cell_of :: "pyval \<Rightarrow> ('f, 't) cell" where
  "cell_of (PStr s) = CStr s"
| "cell_of (PInt i) = CInt i"

definition union_keys :: "pydict list \<Rightarrow> string list" where
  "union_keys recs =
     fold (\<lambda>k acc. if k \<in> set acc then acc else acc @ [k]) (concat (map (map fst) recs)) []"

definition pd_DataFrame :: "pydict list \<Rightarrow> ('f, 't) dataframe" where
  "pd_DataFrame recs =
     \<lparr> columns = union_keys recs,
       rows = map (\<lambda>r. map (\<lambda>c. (c, case map_of r c of Some v \<Rightarrow> cell_of v | None \<Rightarrow> NaN))
                          (union_keys recs)) recs \<rparr>"

text \<open>\<^verbatim>\<open>df[col]\<close> read, and \<^verbatim>\<open>df[col] = values\<close> for a column the table has.\<close>

definition cell_at :: "(string \<times> ('f, 't) cell) list \<Rightarrow> string \<Rightarrow> ('f, 't) cell" where
  "cell_at r c = (case map_of r c of Some v \<Rightarrow> v | None \<Rightarrow> NaN)"

definition get_col :: "('f, 't) dataframe \<Rightarrow> string \<Rightarrow> ('f, 't) cell list" where
  "get_col df c = map (\<lambda>r. cell_at r c) (rows df)"

definition set_col ::
  "('f, 't) dataframe \<Rightarrow> string \<Rightarrow> ('f, 't) cell list \<Rightarrow> ('f, 't) dataframe" where
  "set_col df c vals =
     df \<lparr> rows := map (\<lambda>(r, v). map (\<lambda>(k, x). if k = c then (k, v) else (k, x)) r)
                      (zip (rows df) vals) \<rparr>"

text \<open>
  \<^verbatim>\<open>pd.to_numeric(column, errors='coerce')\<close>, cell by cell: the empty string is \<^verbatim>\<open>NaN\<close>, a
  string the number parser of pandas (\<open>floatify\<close>, a parameter) rejects is \<^verbatim>\<open>NaN\<close>, a
  string it reads is the number read; a cell that is no string stays.
\<close>

fun to_numeric_cell :: "(string \<Rightarrow> 'f option) \<Rightarrow> ('f, 't) cell \<Rightarrow> ('f, 't) cell" where
  "to_numeric_cell floatify (CStr s) =
     (if s = [] then NaN
      else (case floatify s of None \<Rightarrow> NaN | Some v \<Rightarrow> CFloat v))"
| "to_numeric_cell floatify c = c"

definition pd_to_numeric ::
  "(string \<Rightarrow> 'f option) \<Rightarrow> ('f, 't) cell list \<Rightarrow> ('f, 't) cell list" where
  "pd_to_numeric floatify col = map (to_numeric_cell floatify) col"

text \<open>
  \<^verbatim>\<open>pd.to_datetime(column, errors='coerce')\<close>: what pandas does with a column is a
  parameter, \<open>to_dt\<close>. The call raises, or returns a column of the same length: given the
  column, \<open>to_dt\<close> is an exception or the conversion of its cells. With
  \<^verbatim>\<open>errors='coerce'\<close> a string that is no date becomes \<^verbatim>\<open>NaT\<close>, yet the call can still
  raise: pandas raises a \<^verbatim>\<open>ValueError\<close> for a column whose strings carry different time
  zone offsets.
\<close>

definition pd_to_datetime ::
  "(('f, 't) cell list \<Rightarrow> exn + (('f, 't) cell \<Rightarrow> ('f, 't) cell)) \<Rightarrow> ('f, 't) cell list
     \<Rightarrow> exn + ('f, 't) cell list" where
  "pd_to_datetime to_dt col =
     (case to_dt col of Inl e \<Rightarrow> Inl e | Inr f \<Rightarrow> Inr (map f col))"

section \<open>process\_folder\<close>

definition value_columns :: "string list" where
  "value_columns = [''valor_produtos'', ''valor_desconto'', ''valor_frete'',
                    ''valor_total'', ''valor_icms'', ''valor_ipi'']"

text \<open>Lines 132 to 136: the entries of the folder whose lowered name ends in \<^verbatim>\<open>.xml\<close>.\<close>

definition xml_files_of :: "string \<Rightarrow> string list \<Rightarrow> string list" where
  "xml_files_of folder_path names =
     map (os_path_join folder_path) (filter (\<lambda>f. endswith (lower f) ''.xml'') names)"

text \<open>
  Lines 142 to 145: the loop over the files. A record is appended when it is truthy (a
  \<^verbatim>\<open>dict\<close> that is not empty). The loop returns the exception that ended it, if any, and
  the parser.
\<close>

fun process_files ::
  "filesystem \<Rightarrow> string list \<Rightarrow> nfe_parser \<Rightarrow> exn option \<times> nfe_parser" where
  "process_files fs [] self = (None, self)"
| "process_files fs (xml_file # rest) self =
     (case parse_xml_file fs xml_file of
        Inl e \<Rightarrow> (Some e, self)
      | Inr nfe_data \<Rightarrow>
          (case nfe_data of
             None \<Rightarrow> process_files fs rest self
           | Some d \<Rightarrow>
               if d \<noteq> [] then process_files fs rest (self \<lparr> data := data self @ [d] \<rparr>)
               else process_files fs rest self))"

text \<open>
  Lines 151 to 155 and 158 to 159: the two coercion passes. The second one raises what
  \<^verbatim>\<open>pd.to_datetime\<close> raises.
\<close>

definition coerce_values ::
  "(string \<Rightarrow> 'f option) \<Rightarrow> ('f, 't) dataframe \<Rightarrow> ('f, 't) dataframe" where
  "coerce_values floatify df =
     fold (\<lambda>col d. if col \<in> set (columns d)
                    then set_col d col (pd_to_numeric floatify (get_col d col)) else d)
          value_columns df"

definition coerce_date ::
  "(('f, 't) cell list \<Rightarrow> exn + (('f, 't) cell \<Rightarrow> ('f, 't) cell)) \<Rightarrow> ('f, 't) dataframe
     \<Rightarrow> exn + ('f, 't) dataframe" where
  "coerce_date to_dt df =
     (if ''data_emissao'' \<in> set (columns df)
      then (case pd_to_datetime to_dt (get_col df ''data_emissao'') of
              Inl e \<Rightarrow> Inl e
            | Inr vals \<Rightarrow> Inr (set_col df ''data_emissao'' vals))
      else Inr df)"

text \<open>
  \<^verbatim>\<open>process_folder\<close>, lines 116 to 161. The method returns the table or raises, and leaves
  the parser with its new \<^verbatim>\<open>data\<close>: the result is the pair of both.
\<close>

definition msg_not_found :: "string \<Rightarrow> string" where
  "msg_not_found folder_path = ''Pasta n'' @ [CHR 0xE3] @ ''o encontrada: '' @ folder_path"

definition msg_no_xml :: "string \<Rightarrow> string" where
  "msg_no_xml folder_path = ''Nenhum arquivo XML encontrado em: '' @ folder_path"

definition process_folder ::
  "(string \<Rightarrow> 'f option) \<Rightarrow> (('f, 't) cell list \<Rightarrow> exn + (('f, 't) cell \<Rightarrow> ('f, 't) cell))
     \<Rightarrow> filesystem \<Rightarrow> nfe_parser \<Rightarrow> string \<Rightarrow> (exn + ('f, 't) dataframe) \<times> nfe_parser" where
  "process_folder floatify to_dt fs self folder_path =
     (let self0 = self \<lparr> data := [] \<rparr> in
      if \<not> os_path_exists fs folder_path
      then (Inl (ValueError (msg_not_found folder_path)), self0)
      else
        (case os_listdir fs folder_path of
           Inl e \<Rightarrow> (Inl e, self0)
         | Inr names \<Rightarrow>
             (let xml_files = xml_files_of folder_path names in
              if xml_files = []
              then (Inl (ValueError (msg_no_xml folder_path)), self0)
              else
                (case process_files fs xml_files self0 of
                   (Some e, self1) \<Rightarrow> (Inl e, self1)
                 | (None, self1) \<Rightarrow>
                     (coerce_date to_dt
                        (coerce_values floatify (pd_DataFrame (data self1))),
                      self1)))))"

section \<open>What the specification talks about\<close>

text \<open>
  The notions the specification uses and the program has no function for, each written
  from the specification's words, to be compared with what the program computes.
\<close>

text \<open>The local name of a tag: the tag without its \<^verbatim>\<open>{uri}\<close>.\<close>

definition local_name :: "string \<Rightarrow> string" where
  "local_name tg =
     (if startswith tg ''{'' then drop 1 (dropWhile (\<lambda>c. c \<noteq> CHR ''}'') tg) else tg)"

fun has_local_name :: "string \<Rightarrow> node \<Rightarrow> bool" where
  "has_local_name t (Element tg at tx cs) = (local_name tg = t)"
| "has_local_name t Special = False"

text \<open>The first element below a node with a given local name, in whatever namespace.\<close>

definition first_by_local_name :: "string \<Rightarrow> node \<Rightarrow> node option" where
  "first_by_local_name t n = List.find (has_local_name t) (descendants n)"

definition outbound :: string where
  "outbound = ''Sa'' @ [CHR 0xED] @ ''da''"

text \<open>
  The operation type as the specification states it: \<^verbatim>\<open>Entrada\<close> when the trimmed text of
  the operation-type code field (\<^verbatim>\<open>tpNF\<close>) of the identification block (\<^verbatim>\<open>ide\<close>) of the
  invoice-information node is \<^verbatim>\<open>0\<close>; any other value, an empty value or a missing field
  is outbound.
\<close>

definition stated_operation_type :: "node \<Rightarrow> string" where
  "stated_operation_type nfe_info =
     (case first_by_local_name ''ide'' nfe_info of
        None \<Rightarrow> outbound
      | Some ide \<Rightarrow>
          (case first_by_local_name ''tpNF'' ide of
             None \<Rightarrow> outbound
           | Some f \<Rightarrow>
               (case elem_text f of
                  None \<Rightarrow> outbound
                | Some t \<Rightarrow> if strip t = ''0'' then ''Entrada'' else outbound)))"

text \<open>A document holds a recognizable invoice-information node, with a namespace or not.\<close>

definition recognizable :: "node \<Rightarrow> bool" where
  "recognizable root = list_ex (has_local_name ''infNFe'') (descendants root)"

text \<open>A string with a literal prefix stripped from the front when present, else unchanged.\<close>

definition remove_prefix :: "string \<Rightarrow> string \<Rightarrow> string" where
  "remove_prefix p s = (if startswith s p then drop (length p) s else s)"

text \<open>\<^verbatim>\<open>sub in s\<close>: the string \<^verbatim>\<open>sub\<close> occurs somewhere in \<^verbatim>\<open>s\<close>.\<close>

fun occurs :: "string \<Rightarrow> string \<Rightarrow> bool" where
  "occurs sub [] = (sub = [])"
| "occurs sub (c # cs) = (startswith (c # cs) sub \<or> occurs sub cs)"

text \<open>The invalid-input failure kind: the call raised a \<^verbatim>\<open>ValueError\<close>.\<close>

fun raises_ValueError :: "exn + 'a \<Rightarrow> bool" where
  "raises_ValueError (Inl (ValueError m)) = True"
| "raises_ValueError r = False"

text \<open>
  The namespaced twin of a document without namespaces: the same tree with every element
  in the NF-e namespace.
\<close>

definition nfe_uri :: string where
  "nfe_uri = ''http://www.portalfiscal.inf.br/nfe''"

fun qualify :: "node \<Rightarrow> node" where
  "qualify (Element tg at tx cs) = Element (''{'' @ nfe_uri @ ''}'' @ tg) at tx (map qualify cs)"
| "qualify Special = Special"

section \<open>Auxiliary notions of the proofs\<close>

text \<open>The records the loop of \<^verbatim>\<open>process_folder\<close> appends for a list of files.\<close>

definition collected :: "filesystem \<Rightarrow> string list \<Rightarrow> pydict list" where
  "collected fs files =
     concat (map (\<lambda>f. case parse_xml_file fs f of Inr (Some d) \<Rightarrow> [d] | _ \<Rightarrow> []) files)"

text \<open>Every row of a table has exactly the table's columns, in their order.\<close>

definition wf_df :: "('f, 't) dataframe \<Rightarrow> bool" where
  "wf_df df = list_all (\<lambda>r. map fst r = columns df) (rows df)"

text \<open>One round of the loop of lines 153 to 155, for a coercion \<open>f\<close> of single cells.\<close>

definition coerce_step ::
  "(('f, 't) cell \<Rightarrow> ('f, 't) cell) \<Rightarrow> string \<Rightarrow> ('f, 't) dataframe \<Rightarrow> ('f, 't) dataframe" where
  "coerce_step f col d =
     (if col \<in> set (columns d) then set_col d col (map f (get_col d col)) else d)"

text \<open>
  A tree of elements only, no comment and no processing instruction, in which a tag that
  starts with an opening brace holds exactly one closing brace, as every tag of a parsed
  document does unless its namespace URI holds a brace.
\<close>

fun elements_only :: "node \<Rightarrow> bool" where
  "elements_only (Element tg at tx cs) =
     ((startswith tg ''{'' \<longrightarrow> length (filter (\<lambda>c. c = CHR ''}'') tg) = 1)
      \<and> list_all elements_only cs)"
| "elements_only Special = False"

text \<open>The same tree with a function applied to every tag.\<close>

fun map_tag :: "(string \<Rightarrow> string) \<Rightarrow> node \<Rightarrow> node" where
  "map_tag f (Element tg at tx cs) = Element (f tg) at tx (map (map_tag f) cs)"
| "map_tag f Special = Special"

section \<open>Sample inputs\<close>

text \<open>
  A folder \<^verbatim>\<open>notas\<close> with the listed names and one file \<^verbatim>\<open>notas/nota.xml\<close>; an invoice
  without namespaces whose identification block has number 100 and operation-type code 0;
  an invoice whose \<^verbatim>\<open>Id\<close> holds \<^verbatim>\<open>NFe\<close> twice; an invoice with a totals block whose total
  value is 150.50; a folder with two invoices whose issue dates carry different time zone
  offsets; number parsers and date parsers. \<open>sample_to_dt\<close> never raises;
  \<open>mixed_offsets_to_dt\<close> raises the \<^verbatim>\<open>ValueError\<close> of pandas when the strings of the
  column end in different offsets.
\<close>

definition folder_with :: "string list \<Rightarrow> content \<Rightarrow> filesystem" where
  "folder_with names c =
     (\<lambda>p. if p = ''notas'' then Some (Directory names)
          else if p = ''notas/nota.xml'' then Some (RegularFile c)
          else None)"

definition invoice_info :: node where
  "invoice_info =
     Element ''infNFe'' [(''Id'', ''NFe123'')] None
       [Element ''ide'' [] None
          [Element ''nNF'' [] (Some ''100'') [],
           Element ''tpNF'' [] (Some ''0'') []]]"

definition invoice_plain :: node where
  "invoice_plain = Element ''NFe'' [] None [invoice_info]"

definition invoice_key :: node where
  "invoice_key = Element ''NFe'' [] None [Element ''infNFe'' [(''Id'', ''NFe35NFe1'')] None []]"

definition sample_floatify :: "string \<Rightarrow> nat option" where
  "sample_floatify s = (if s = ''1'' then Some 1 else None)"

definition sample_to_dt ::
  "(nat, unit) cell list \<Rightarrow> exn + ((nat, unit) cell \<Rightarrow> (nat, unit) cell)" where
  "sample_to_dt col = Inr (\<lambda>c. NaT)"

definition invoice_totals_info :: node where
  "invoice_totals_info =
     Element ''infNFe'' [(''Id'', ''NFe123'')] None
       [Element ''ide'' [] None
          [Element ''nNF'' [] (Some ''100'') [],
           Element ''tpNF'' [] (Some ''0'') []],
        Element ''total'' [] None
          [Element ''ICMSTot'' [] None
             [Element ''vNF'' [] (Some ''150.50'') []]]]"

definition invoice_totals :: node where
  "invoice_totals = Element ''NFe'' [] None [invoice_totals_info]"

text \<open>A number parser that reads \<^verbatim>\<open>150.50\<close>, counted in hundredths.\<close>

definition floatify_hundredths :: "string \<Rightarrow> nat option" where
  "floatify_hundredths s = (if s = ''150.50'' then Some 15050 else None)"





section \<open>Lemmas on the loop, the table and the strings\<close>

lemma parse_xml_file_returns: "\<exists>r. parse_xml_file fs f = Inr r"
  by (simp add: parse_xml_file_def split: sum.split)

lemma extract_data_nonempty: "extract_data f n = Inr d \<Longrightarrow> d \<noteq> []"
  by (auto simp: extract_data_def bnd_def split: sum.splits)

lemma parse_xml_file_nonempty: "parse_xml_file fs f = Inr (Some d) \<Longrightarrow> d \<noteq> []"
  by (auto simp: parse_xml_file_def parse_xml_body_def bnd_def
           split: sum.splits option.splits dest: extract_data_nonempty)

lemma process_files_collected:
  "process_files fs files self = (None, self \<lparr> data := data self @ collected fs files \<rparr>)"
proof (induction files arbitrary: self)
  case Nil
  then show ?case by (simp add: collected_def)
next
  case (Cons f files)
  obtain r where r: "parse_xml_file fs f = Inr r"
    using parse_xml_file_returns by blast
  show ?case
  proof (cases r)
    case None
    with r Cons show ?thesis by (simp add: collected_def)
  next
    case (Some d)
    with r have "d \<noteq> []" using parse_xml_file_nonempty by blast
    with r Some Cons show ?thesis by (simp add: collected_def)
  qed
qed

lemma length_collected:
  "length (collected fs files) = length (filter (\<lambda>f. parse_xml_file fs f \<noteq> Inr None) files)"
proof (induction files)
  case Nil
  then show ?case by (simp add: collected_def)
next
  case (Cons f files)
  obtain r where r: "parse_xml_file fs f = Inr r"
    using parse_xml_file_returns by blast
  with Cons show ?case by (cases r) (auto simp: collected_def)
qed

lemma length_rows_set_col:
  "length vals = length (rows df) \<Longrightarrow> length (rows (set_col df c vals)) = length (rows df)"
  by (simp add: set_col_def)

lemma columns_set_col: "columns (set_col df c vals) = columns df"
  by (simp add: set_col_def)

lemma length_get_col: "length (get_col df c) = length (rows df)"
  by (simp add: get_col_def)

lemma length_rows_coerce_values: "length (rows (coerce_values fl df)) = length (rows df)"
  by (simp add: coerce_values_def value_columns_def set_col_def pd_to_numeric_def get_col_def)

lemma length_rows_coerce_date:
  "coerce_date dt df = Inr df' \<Longrightarrow> length (rows df') = length (rows df)"
  by (auto simp: coerce_date_def set_col_def pd_to_datetime_def get_col_def
           split: if_splits sum.splits)

lemma length_rows_pd_DataFrame: "length (rows (pd_DataFrame recs)) = length recs"
  by (simp add: pd_DataFrame_def)

lemma process_folder_cases:
  "process_folder fl dt fs self p =
     (if \<not> os_path_exists fs p then (Inl (ValueError (msg_not_found p)), self \<lparr> data := [] \<rparr>)
      else case os_listdir fs p of
             Inl e \<Rightarrow> (Inl e, self \<lparr> data := [] \<rparr>)
           | Inr names \<Rightarrow>
               if xml_files_of p names = []
               then (Inl (ValueError (msg_no_xml p)), self \<lparr> data := [] \<rparr>)
               else (coerce_date dt (coerce_values fl
                       (pd_DataFrame (collected fs (xml_files_of p names)))),
                     self \<lparr> data := collected fs (xml_files_of p names) \<rparr>))"
  by (simp add: process_folder_def Let_def process_files_collected split: sum.split)

lemma fold_union_set:
  "set (fold (\<lambda>k acc. if k \<in> set acc then acc else acc @ [k]) ks acc) = set acc \<union> set ks"
  by (induction ks arbitrary: acc) auto

lemma set_union_keys: "set (union_keys recs) = (\<Union>r \<in> set recs. fst ` set r)"
  by (auto simp: union_keys_def fold_union_set)

lemma map_of_tabulate:
  "map_of (map (\<lambda>c. (c, g c)) cols) k = (if k \<in> set cols then Some (g k) else None)"
  by (induction cols) auto

lemma cell_at_pd_DataFrame:
  assumes "i < length recs"
  shows "cell_at (rows (pd_DataFrame recs) ! i) k =
           (case map_of (recs ! i) k of Some v \<Rightarrow> cell_of v | None \<Rightarrow> NaN)"
proof (cases "k \<in> set (union_keys recs)")
  case True
  with assms show ?thesis
    by (simp add: pd_DataFrame_def cell_at_def map_of_tabulate)
next
  case False
  have "recs ! i \<in> set recs" using assms by simp
  with False have "k \<notin> fst ` set (recs ! i)"
    unfolding set_union_keys by blast
  then have "map_of (recs ! i) k = None"
    by (simp add: map_of_eq_None_iff)
  with False assms show ?thesis
    by (simp add: pd_DataFrame_def cell_at_def map_of_tabulate)
qed

lemma wf_pd_DataFrame: "wf_df (pd_DataFrame recs)"
  by (simp add: wf_df_def pd_DataFrame_def list_all_iff comp_def)

lemma map_fst_update_row: "map fst (map (\<lambda>(k, x). if k = c then (k, v) else (k, x)) r) = map fst r"
  by (induction r) auto

lemma wf_set_col:
  assumes "wf_df df"
  shows "wf_df (set_col df c vals)"
proof -
  have "map fst (map (\<lambda>(k, x). if k = c then (k, v) else (k, x)) r) = columns df"
    if "(r, v) \<in> set (zip (rows df) vals)" for r v
  proof -
    have "r \<in> set (rows df)" using that by (rule set_zip_leftD)
    then have "map fst r = columns df" using assms by (simp add: wf_df_def list_all_iff)
    then show ?thesis by (simp only: map_fst_update_row)
  qed
  then show ?thesis
    by (auto simp add: wf_df_def set_col_def list_all_iff simp del: map_map)
qed

lemma map_of_update_row:
  "map_of (map (\<lambda>(k, x). if k = c then (k, v) else (k, x)) r) k =
     (if k = c then (if map_of r c = None then None else Some v) else map_of r k)"
  by (induction r) auto

lemma cell_at_set_col:
  assumes "i < length (rows df)" "length vals = length (rows df)"
  shows "cell_at (rows (set_col df c vals) ! i) k =
           (if k = c \<and> map_of (rows df ! i) c \<noteq> None then vals ! i else cell_at (rows df ! i) k)"
  using assms by (simp add: set_col_def cell_at_def map_of_update_row)

lemma cell_at_map_col:
  assumes "i < length (rows df)" "f NaN = NaN"
  shows "cell_at (rows (set_col df c (map f (get_col df c))) ! i) k =
           (if k = c then f (cell_at (rows df ! i) c) else cell_at (rows df ! i) k)"
proof -
  have "map_of (rows df ! i) c = None \<Longrightarrow> f (cell_at (rows df ! i) c) = cell_at (rows df ! i) c"
    using assms(2) by (simp add: cell_at_def)
  then show ?thesis
    using assms(1) by (auto simp: cell_at_set_col get_col_def)
qed

lemma cell_at_absent_column:
  assumes "wf_df df" "i < length (rows df)" "c \<notin> set (columns df)"
  shows "cell_at (rows df ! i) c = NaN"
proof -
  have "map fst (rows df ! i) = columns df"
    using assms(1,2) by (simp add: wf_df_def list_all_length)
  then have "c \<notin> fst ` set (rows df ! i)"
    using assms(3) by (metis set_map)
  then have "map_of (rows df ! i) c = None"
    by (simp add: map_of_eq_None_iff)
  then show ?thesis
    by (simp add: cell_at_def)
qed

lemma coerce_step_props:
  assumes "wf_df d"
  shows "wf_df (coerce_step f col d)"
    and "length (rows (coerce_step f col d)) = length (rows d)"
  using assms by (simp_all add: coerce_step_def wf_set_col) (simp add: set_col_def get_col_def)

lemma cell_at_coerce_step:
  assumes "wf_df d" "i < length (rows d)" "f NaN = NaN"
  shows "cell_at (rows (coerce_step f col d) ! i) k =
           (if k = col then f (cell_at (rows d ! i) k) else cell_at (rows d ! i) k)"
proof (cases "col \<in> set (columns d)")
  case True
  then show ?thesis using assms by (simp add: coerce_step_def cell_at_map_col)
next
  case False
  then show ?thesis
    using assms cell_at_absent_column [OF assms(1,2) False] by (simp add: coerce_step_def)
qed

lemma fold_coerce_step:
  assumes "wf_df d" "i < length (rows d)" "f NaN = NaN" "distinct cs"
  shows "wf_df (fold (coerce_step f) cs d)
         \<and> length (rows (fold (coerce_step f) cs d)) = length (rows d)
         \<and> cell_at (rows (fold (coerce_step f) cs d) ! i) k =
             (if k \<in> set cs then f (cell_at (rows d ! i) k) else cell_at (rows d ! i) k)"
  using assms
proof (induction cs arbitrary: d)
  case Nil
  then show ?case by simp
next
  case (Cons c cs)
  let ?d = "coerce_step f c d"
  have wf: "wf_df ?d" and len: "length (rows ?d) = length (rows d)"
    using Cons.prems(1) by (simp_all add: coerce_step_props)
  have i: "i < length (rows ?d)" using len Cons.prems(2) by simp
  have dist: "distinct cs" and notin: "c \<notin> set cs" using Cons.prems(4) by simp_all
  note IH = Cons.IH [OF wf i Cons.prems(3) dist]
  have cell: "cell_at (rows ?d ! i) k =
           (if k = c then f (cell_at (rows d ! i) k) else cell_at (rows d ! i) k)"
    using Cons.prems(1,2,3) by (rule cell_at_coerce_step)
  show ?case using IH cell len notin by auto
qed

lemma coerce_values_fold:
  "coerce_values fl df = fold (coerce_step (to_numeric_cell fl)) value_columns df"
  unfolding coerce_values_def coerce_step_def [abs_def] pd_to_numeric_def by (rule refl)

lemma distinct_value_columns: "distinct value_columns"
  by (simp add: value_columns_def)

lemma cell_at_coerce_values:
  fixes d :: "('f, 't) dataframe"
  assumes "wf_df d" "i < length (rows d)" "k \<in> set value_columns"
  shows "cell_at (rows (coerce_values fl d) ! i) k = to_numeric_cell fl (cell_at (rows d ! i) k)"
    and "wf_df (coerce_values fl d)"
    and "length (rows (coerce_values fl d)) = length (rows d)"
proof -
  have nan: "to_numeric_cell fl (NaN :: ('f, 't) cell) = NaN" by simp
  have all: "wf_df (fold (coerce_step (to_numeric_cell fl)) value_columns d)
         \<and> length (rows (fold (coerce_step (to_numeric_cell fl)) value_columns d)) = length (rows d)
         \<and> cell_at (rows (fold (coerce_step (to_numeric_cell fl)) value_columns d) ! i) k =
             (if k \<in> set value_columns then to_numeric_cell fl (cell_at (rows d ! i) k)
              else cell_at (rows d ! i) k)"
    using assms(1,2) nan distinct_value_columns by (rule fold_coerce_step)
  show "cell_at (rows (coerce_values fl d) ! i) k = to_numeric_cell fl (cell_at (rows d ! i) k)"
    using all assms(3) by (simp add: coerce_values_fold)
  show "wf_df (coerce_values fl d)"
    using all by (simp add: coerce_values_fold)
  show "length (rows (coerce_values fl d)) = length (rows d)"
    using all by (simp add: coerce_values_fold)
qed

lemma cell_at_coerce_date:
  assumes "coerce_date dt d = Inr d'" "i < length (rows d)" "k \<noteq> ''data_emissao''"
  shows "cell_at (rows d' ! i) k = cell_at (rows d ! i) k"
proof (cases "''data_emissao'' \<in> set (columns d)")
  case True
  with assms(1) obtain f where f: "dt (get_col d ''data_emissao'') = Inr f"
    and d': "d' = set_col d ''data_emissao'' (map f (get_col d ''data_emissao''))"
    by (auto simp: coerce_date_def pd_to_datetime_def split: sum.splits)
  show ?thesis
    unfolding d' using assms(2,3) by (simp add: cell_at_set_col get_col_def)
next
  case False
  with assms(1) show ?thesis by (simp add: coerce_date_def)
qed

lemma value_columns_not_date: "k \<in> set value_columns \<Longrightarrow> k \<noteq> ''data_emissao''"
  by (auto simp: value_columns_def)

lemma cell_at_coerced:
  fixes df :: "('f, 't) dataframe"
  assumes "coerce_date dt (coerce_values fl (pd_DataFrame recs)) = Inr df"
    and "i < length recs" "k \<in> set value_columns"
  shows "cell_at (rows df ! i) k =
           to_numeric_cell fl (case map_of (recs ! i) k of Some v \<Rightarrow> cell_of v | None \<Rightarrow> NaN)"
proof -
  let ?d0 = "pd_DataFrame recs :: ('f, 't) dataframe"
  have i0: "i < length (rows ?d0)" using assms(2) by (simp add: pd_DataFrame_def)
  have i1: "i < length (rows (coerce_values fl ?d0))"
    using cell_at_coerce_values(3) [OF wf_pd_DataFrame i0 assms(3)] i0 by simp
  show ?thesis
    by (simp add: cell_at_coerce_date [OF assms(1) i1 value_columns_not_date [OF assms(3)]]
          cell_at_coerce_values(1) [OF wf_pd_DataFrame i0 assms(3)]
          cell_at_pd_DataFrame [OF assms(2)])
qed






lemma process_folder_any_state:
  "process_folder fl dt fs self1 p = process_folder fl dt fs self2 p"
proof -
  have reset: "self1 \<lparr> data := [] \<rparr> = self2 \<lparr> data := [] \<rparr>" by simp
  show ?thesis unfolding process_folder_def reset by (rule refl)
qed



lemma listdir_exists: "os_listdir fs p = Inr names \<Longrightarrow> os_path_exists fs p"
  by (auto simp: os_listdir_def os_path_exists_def split: option.splits entry.splits)

lemma replace_nonempty_absent:
  "old \<noteq> [] \<Longrightarrow> \<not> occurs old s \<Longrightarrow> replace_nonempty old new s = s"
  by (induction s) auto

lemma replace_nonempty_prefix:
  assumes "old \<noteq> []" "startswith s old"
  shows "replace_nonempty old new s = new @ replace_nonempty old new (drop (length old) s)"
proof (cases s)
  case Nil
  with assms show ?thesis by (cases old) auto
next
  case (Cons c cs)
  have "drop (length old - 1) cs = drop (length old) (c # cs)"
    using assms(1) by (cases old) auto
  with Cons assms(2) show ?thesis by simp
qed

lemma replace_is_remove_prefix:
  assumes "old \<noteq> []" "\<not> occurs old (remove_prefix old s)"
  shows "replace s old [] = remove_prefix old s"
proof (cases "startswith s old")
  case True
  then have "replace_nonempty old [] s = replace_nonempty old [] (drop (length old) s)"
    using replace_nonempty_prefix [OF assms(1) True, of "[]"] by simp
  also have "\<dots> = drop (length old) s"
    using assms True by (simp add: remove_prefix_def replace_nonempty_absent)
  finally show ?thesis using True assms(1) by (simp add: replace_def remove_prefix_def)
next
  case False
  with assms show ?thesis by (simp add: replace_def remove_prefix_def replace_nonempty_absent)
qed

lemma extract_data_access_key:
  "extract_data file_path nfe_info = Inr d \<Longrightarrow>
     map_of d ''chave_acesso'' = Some (PStr (replace (attrib_get nfe_info ''Id'' []) ''NFe'' []))"
  by (auto simp: extract_data_def bnd_def split: sum.splits)

section \<open>What the lookups of the extractor find\<close>

text \<open>
  The block lookups of lines 50 to 53 and the field lookups of \<^verbatim>\<open>_get_text\<close> use names
  without a namespace, so below an invoice-information node found by the namespaced lookup
  of line 36 they find nothing: the record of a document that is entirely in the NF-e
  namespace has every text field empty, whatever the document holds. The six monetary
  lookups of lines 72 to 77 pass \<^verbatim>\<open>.//vProd\<close> and the like to \<^verbatim>\<open>_get_text\<close>, which puts
  \<^verbatim>\<open>.//\<close> in front once more: when the totals block is found, the path does not compile
  and the file gets an error record; a record that is extracted has its six monetary
  fields empty.
\<close>

lemma get_text_dotted_raises:
  "get_text (Some tot) ''.//vProd'' dflt = Inl (SyntaxError ''invalid descendant'')"
  by (simp add: get_text_def find_def findall_def xpath_tokenizer_def resolve_prefix_def bnd_def
        push_def)

lemma extract_data_totals_found:
  assumes "find nfe_info ''.//total'' [] = Inr (Some tot)"
  shows "extract_data file_path nfe_info = Inl (SyntaxError ''invalid descendant'')"
proof -
  have simple: "\<And>parent tg. tg \<in> {''nNF'', ''serie'', ''dhEmi'', ''dEmi'', ''CNPJ'', ''xNome'', ''xFant'', ''CPF''}
      \<Longrightarrow> \<exists>x. get_text parent tg [] = Inr x"
    by (case_tac parent)
       (auto simp: get_text_def find_def findall_def xpath_tokenizer_def resolve_prefix_def bnd_def
          push_def split: option.splits list.splits)
  have names: "\<And>n tg. tg \<in> {''.//ide'', ''.//emit'', ''.//dest''} \<Longrightarrow> \<exists>x. find n tg [] = Inr x"
    by (auto simp: find_def findall_def xpath_tokenizer_def resolve_prefix_def bnd_def push_def)
  have either: "\<And>a b. \<exists>x. a = Inr x \<Longrightarrow> \<exists>y. b = Inr y \<Longrightarrow> \<exists>z. or_else a b = Inr z"
    by (auto simp: or_else_def bnd_def)
  obtain ide where ide: "find nfe_info ''.//ide'' [] = Inr ide" using names by blast
  obtain emit where emit: "find nfe_info ''.//emit'' [] = Inr emit" using names by blast
  obtain dest where dest: "find nfe_info ''.//dest'' [] = Inr dest" using names by blast
  obtain a1 where a1: "get_text ide ''nNF'' [] = Inr a1" using simple by blast
  obtain a2 where a2: "get_text ide ''serie'' [] = Inr a2" using simple by blast
  obtain a3 where a3: "or_else (get_text ide ''dhEmi'' []) (get_text ide ''dEmi'' []) = Inr a3"
    using either [OF simple [of "''dhEmi''" ide] simple [of "''dEmi''" ide]] by auto
  obtain a4 where a4: "get_text emit ''CNPJ'' [] = Inr a4" using simple by blast
  obtain a5 where a5: "get_text emit ''xNome'' [] = Inr a5" using simple by blast
  obtain a6 where a6: "get_text emit ''xFant'' [] = Inr a6" using simple by blast
  obtain a7 where a7: "or_else (get_text dest ''CNPJ'' []) (get_text dest ''CPF'' []) = Inr a7"
    using either [OF simple [of "''CNPJ''" dest] simple [of "''CPF''" dest]] by auto
  obtain a8 where a8: "get_text dest ''xNome'' [] = Inr a8" using simple by blast
  show ?thesis
    unfolding extract_data_def
    by (simp add: bnd_def ide emit dest assms a1 a2 a3 a4 a5 a6 a7 a8 get_text_dotted_raises)
qed

lemma descendants_qualify: "descendants (qualify n) = map qualify (descendants n)"
proof (induction n)
  case (Element tg at tx cs)
  then show ?case by (induction cs) auto
next
  case Special
  then show ?case by simp
qed

lemma has_tag_qualify: "\<not> startswith t ''{'' \<Longrightarrow> \<not> has_tag t (qualify m)"
  by (cases m) auto

lemma no_plain_descendant_in_twin:
  "\<not> startswith t ''{'' \<Longrightarrow> filter (has_tag t) (descendants (qualify n)) = []"
  by (simp add: descendants_qualify filter_empty_conv has_tag_qualify)

lemma attrib_get_qualify: "attrib_get (qualify n) k d = attrib_get n k d"
  by (cases n) auto

lemma extract_data_qualified:
  "extract_data file_path (qualify n)
     = Inr [(''arquivo'', PStr (os_path_basename file_path)),
          (''numero_nf'', PStr []),
          (''serie'', PStr []),
          (''data_emissao'', PStr []),
          (''chave_acesso'', PStr (replace (attrib_get n ''Id'' []) ''NFe'' [])),
          (''emit_cnpj'', PStr []),
          (''emit_nome'', PStr []),
          (''emit_fantasia'', PStr []),
          (''dest_cnpj'', PStr []),
          (''dest_nome'', PStr []),
          (''valor_produtos'', PStr []),
          (''valor_desconto'', PStr []),
          (''valor_frete'', PStr []),
          (''valor_total'', PStr []),
          (''valor_icms'', PStr []),
          (''valor_ipi'', PStr []),
          (''natureza_operacao'', PStr []),
          (''tipo_operacao'', PStr outbound),
          (''qtd_itens'', PInt 0)]"
  by (simp add: extract_data_def find_def findall_def xpath_tokenizer_def resolve_prefix_def
        bnd_def push_def no_plain_descendant_in_twin get_text_def or_else_def attrib_get_qualify
        outbound_def)

lemma find_total_returns: "\<exists>r. find n ''.//total'' [] = Inr r"
  by (simp add: find_def findall_def xpath_tokenizer_def resolve_prefix_def bnd_def push_def)

lemma extract_data_monetary_empty:
  assumes "extract_data file_path nfe_info = Inr d" and "col \<in> set value_columns"
  shows "map_of d col = Some (PStr [])"
proof -
  obtain r where r: "find nfe_info ''.//total'' [] = Inr r"
    using find_total_returns by blast
  have "r = None"
  proof (cases r)
    case (Some tot)
    with r assms(1) show ?thesis by (simp add: extract_data_totals_found)
  qed simp
  with r assms show ?thesis
    by (auto simp: extract_data_def bnd_def get_text_def value_columns_def split: sum.splits)
qed

text \<open>
  A document of elements only in which no element below the root has the local name
  \<^verbatim>\<open>infNFe\<close> is skipped: the extractor returns \<^verbatim>\<open>None\<close> and the loop appends nothing.
\<close>

lemma split_char_no_sep:
  "c \<notin> set s \<Longrightarrow> split_char c s = [s]"
  by (induction s) auto

lemma split_char_one_sep:
  "length (filter (\<lambda>x. x = c) s) = 1 \<Longrightarrow>
     split_char c s = [takeWhile (\<lambda>x. x \<noteq> c) s, drop 1 (dropWhile (\<lambda>x. x \<noteq> c) s)]"
proof (induction s)
  case Nil
  then show ?case by simp
next
  case (Cons x xs)
  show ?case
  proof (cases "x = c")
    case True
    with Cons.prems have "c \<notin> set xs"
      by (auto simp: filter_empty_conv)
    with True show ?thesis by (simp add: split_char_no_sep)
  next
    case False
    with Cons show ?thesis by simp
  qed
qed

lemma sequence_map_Inr:
  "(\<And>x. x \<in> set xs \<Longrightarrow> f x = Inr (g x)) \<Longrightarrow> sequence (map f xs) = Inr (map g xs)"
  by (induction xs) auto

lemma strip_namespaces_elements_only:
  "elements_only n \<Longrightarrow> strip_namespaces n = Inr (map_tag local_name n)"
proof (induction n)
  case (Element tg at tx cs)
  have kids: "sequence (map strip_namespaces cs) = Inr (map (map_tag local_name) cs)"
    using Element by (intro sequence_map_Inr) (auto simp: list_all_iff)
  show ?case
  proof (cases "startswith tg ''{''")
    case True
    with Element.prems have "length (filter (\<lambda>c. c = CHR ''}'') tg) = 1" by simp
    then have "split_char (CHR ''}'') tg
                 = [takeWhile (\<lambda>x. x \<noteq> CHR ''}'') tg, drop 1 (dropWhile (\<lambda>x. x \<noteq> CHR ''}'') tg)]"
      by (rule split_char_one_sep)
    moreover have "local_name tg = drop 1 (dropWhile (\<lambda>x. x \<noteq> CHR ''}'') tg)"
      using True by (simp add: local_name_def)
    ultimately show ?thesis using True kids by (simp add: bnd_def)
  next
    case False
    then have "local_name tg = tg" by (simp add: local_name_def)
    with False kids show ?thesis by (simp add: bnd_def)
  qed
next
  case Special
  then show ?case by simp
qed

lemma descendants_map_tag: "descendants (map_tag f n) = map (map_tag f) (descendants n)"
proof (induction n)
  case (Element tg at tx cs)
  then show ?case by (induction cs) auto
next
  case Special
  then show ?case by simp
qed

lemma has_tag_map_tag: "has_tag t (map_tag local_name m) = has_local_name t m"
  by (cases m) auto

lemma local_name_qualified_infNFe:
  "local_name ''{http://www.portalfiscal.inf.br/nfe}infNFe'' = ''infNFe''"
  by (simp add: local_name_def)

lemma has_tag_qualified_infNFe:
  "has_tag ''{http://www.portalfiscal.inf.br/nfe}infNFe'' m \<Longrightarrow> has_local_name ''infNFe'' m"
  by (cases m) (auto simp: local_name_qualified_infNFe)

lemma locate_infNFe_unrecognizable:
  assumes "elements_only root" and "\<not> recognizable root"
  shows "locate_infNFe root = Inr None"
proof -
  have none: "\<And>m. m \<in> set (descendants root) \<Longrightarrow> \<not> has_local_name ''infNFe'' m"
    using assms(2) by (auto simp: recognizable_def list_ex_iff)
  have first: "filter (has_tag ''{http://www.portalfiscal.inf.br/nfe}infNFe'') (descendants root) = []"
    using none has_tag_qualified_infNFe by (auto simp: filter_empty_conv)
  have second: "filter (has_tag ''infNFe'') (descendants (map_tag local_name root)) = []"
    using none by (auto simp: filter_empty_conv descendants_map_tag has_tag_map_tag)
  show ?thesis
    by (simp add: locate_infNFe_def find_def findall_def xpath_tokenizer_def resolve_prefix_def
          NAMESPACES_def bnd_def push_def first second strip_namespaces_elements_only [OF assms(1)])
qed

lemma unrecognizable_elements_skipped:
  assumes "etree_parse fs file_path = Inr root" and "elements_only root" and "\<not> recognizable root"
  shows "parse_xml_file fs file_path = Inr None"
    and "process_files fs [file_path] self = (None, self)"
proof -
  show none: "parse_xml_file fs file_path = Inr None"
    using assms
    by (simp add: parse_xml_file_def parse_xml_body_def bnd_def locate_infNFe_unrecognizable)
  then show "process_files fs [file_path] self = (None, self)" by simp
qed

lemma collected_from_file:
  "d \<in> set (collected fs files) \<Longrightarrow> \<exists>f. parse_xml_file fs f = Inr (Some d)"
  by (auto simp: collected_def split: sum.splits option.splits)

lemma collected_monetary_empty:
  assumes "d \<in> set (collected fs files)" and "col \<in> set value_columns"
  shows "map_of d col = None \<or> map_of d col = Some (PStr [])"
proof -
  obtain f where f: "parse_xml_file fs f = Inr (Some d)"
    using assms(1) collected_from_file by blast
  show ?thesis
  proof (cases "parse_xml_body fs f")
    case (Inl e)
    with f have "d = [(''arquivo'', PStr (os_path_basename f)), (''erro'', PStr (str_exn e))]"
      by (simp add: parse_xml_file_def)
    with assms(2) show ?thesis by (auto simp: value_columns_def)
  next
    case (Inr r)
    with f have "parse_xml_body fs f = Inr (Some d)" by (simp add: parse_xml_file_def)
    then obtain n where "extract_data f n = Inr d"
      by (auto simp: parse_xml_body_def bnd_def split: sum.splits option.splits)
    then show ?thesis using assms(2) by (simp add: extract_data_monetary_empty)
  qed
qed

text \<open>
  In every table \<^verbatim>\<open>process_folder\<close> returns, every cell of the six monetary columns is
  \<^verbatim>\<open>NaN\<close>, whatever the documents hold and whatever the number parser reads.
\<close>

lemma every_monetary_cell_is_NaN:
  fixes df :: "('f, 't) dataframe"
  assumes "fst (process_folder fl dt fs self p) = Inr df"
    and "i < length (rows df)" and "col \<in> set value_columns"
  shows "cell_at (rows df ! i) col = NaN"
proof -
  have ex: "os_path_exists fs p"
    using assms(1) by (auto simp: process_folder_cases split: if_splits)
  then obtain names where names: "os_listdir fs p = Inr names"
    using assms(1) by (cases "os_listdir fs p") (auto simp: process_folder_cases)
  let ?recs = "collected fs (xml_files_of p names)"
  have ne: "xml_files_of p names \<noteq> []"
    using assms(1) ex names by (auto simp: process_folder_cases split: if_splits)
  have df: "coerce_date dt (coerce_values fl (pd_DataFrame ?recs)) = Inr df"
    using assms(1) ex names ne by (simp add: process_folder_cases)
  have len: "length (rows df) = length ?recs"
    using length_rows_coerce_date [OF df]
    by (simp add: length_rows_coerce_values length_rows_pd_DataFrame)
  then have i: "i < length ?recs" using assms(2) by simp
  then have "?recs ! i \<in> set ?recs" by simp
  then have "map_of (?recs ! i) col = None \<or> map_of (?recs ! i) col = Some (PStr [])"
    using assms(3) by (rule collected_monetary_empty)
  then show ?thesis
    using cell_at_coerced [OF df i assms(3)] by auto
qed




section \<open>The claims\<close>

text \<open>
  C1. For every file path, \<^verbatim>\<open>parse_xml_file\<close> returns and raises nothing: an exception of
  its body, and so a failure of \<^verbatim>\<open>etree.parse\<close>, comes back as the record with exactly the
  two keys \<^verbatim>\<open>arquivo\<close>, the base name of the path, and \<^verbatim>\<open>erro\<close>, the message of the
  exception.
\<close>

theorem parse_xml_file_never_raises:
  "(\<exists>r. parse_xml_file fs file_path = Inr r)
   \<and> (\<forall>e. parse_xml_body fs file_path = Inl e \<longrightarrow>
          parse_xml_file fs file_path =
            Inr (Some [(''arquivo'', PStr (os_path_basename file_path)),
                       (''erro'', PStr (str_exn e))]))
   \<and> (\<forall>e. etree_parse fs file_path = Inl e \<longrightarrow>
          parse_xml_file fs file_path =
            Inr (Some [(''arquivo'', PStr (os_path_basename file_path)),
                       (''erro'', PStr (str_exn e))]))"
  by (simp add: parse_xml_file_def parse_xml_body_def bnd_def split: sum.split)

theorem parse_xml_file_never_raises_witness:
  "etree_parse (folder_with [''nota.xml''] (Malformed ''Premature end of data'')) ''notas/nota.xml''
     = Inl (XMLSyntaxError ''Premature end of data'')
   \<and> parse_xml_file (folder_with [''nota.xml''] (Malformed ''Premature end of data'')) ''notas/nota.xml''
     = Inr (Some [(''arquivo'', PStr ''nota.xml''), (''erro'', PStr ''Premature end of data'')])"
  using parse_xml_file_never_raises
          [of "folder_with [''nota.xml''] (Malformed ''Premature end of data'')" "''notas/nota.xml''"]
  by (simp add: etree_parse_def folder_with_def os_path_basename_def)




text \<open>
  C3 fails on the code. In the namespaced twin of the sample invoice the identification
  block's operation-type code is \<^verbatim>\<open>0\<close>, so the stated operation type is \<^verbatim>\<open>Entrada\<close>; the
  record extracted from it says outbound.
\<close>

theorem operation_type_lost_with_namespace:
  "locate_infNFe (qualify invoice_plain) = Inr (Some (qualify invoice_info))
   \<and> stated_operation_type (qualify invoice_info) = ''Entrada''
   \<and> parse_xml_file (folder_with [''nota.xml''] (Document (qualify invoice_plain))) ''notas/nota.xml''
     = Inr (Some [(''arquivo'', PStr ''nota.xml''),
          (''numero_nf'', PStr []),
          (''serie'', PStr []),
          (''data_emissao'', PStr []),
          (''chave_acesso'', PStr ''123''),
          (''emit_cnpj'', PStr []),
          (''emit_nome'', PStr []),
          (''emit_fantasia'', PStr []),
          (''dest_cnpj'', PStr []),
          (''dest_nome'', PStr []),
          (''valor_produtos'', PStr []),
          (''valor_desconto'', PStr []),
          (''valor_frete'', PStr []),
          (''valor_total'', PStr []),
          (''valor_icms'', PStr []),
          (''valor_ipi'', PStr []),
          (''natureza_operacao'', PStr []),
          (''tipo_operacao'', PStr outbound),
          (''qtd_itens'', PInt 0)])"
  by code_simp

text \<open>
  C4 fails on the code. A document that parses, has no invoice-information node and holds
  a comment is not skipped: the extractor returns an error record, and the table has a
  row for the file.
\<close>

theorem comment_document_gets_error_row:
  "\<not> recognizable (Element ''raiz'' [] None [Special])
   \<and> parse_xml_file (folder_with [''nota.xml''] (Document (Element ''raiz'' [] None [Special])))
        ''notas/nota.xml''
     = Inr (Some [(''arquivo'', PStr ''nota.xml''),
                  (''erro'', PStr (''object has no attribute '' @ [CHR 0x27] @ ''startswith''
                                     @ [CHR 0x27]))])
   \<and> fst (process_folder sample_floatify sample_to_dt
            (folder_with [''nota.xml''] (Document (Element ''raiz'' [] None [Special])))
            \<lparr> data = [] \<rparr> ''notas'')
     = Inr \<lparr> columns = [''arquivo'', ''erro''],
             rows = [[(''arquivo'', CStr ''nota.xml''),
                      (''erro'', CStr (''object has no attribute '' @ [CHR 0x27] @ ''startswith''
                                         @ [CHR 0x27]))]] \<rparr>"
  by code_simp

text \<open>
  C5 as stated fails: a folder with one XML file whose document has no invoice-information
  node gives a table with no row.
\<close>

theorem row_count_counterexample:
  "os_listdir (folder_with [''nota.xml''] (Document (Element ''raiz'' [] None []))) ''notas''
     = Inr [''nota.xml'']
   \<and> length (xml_files_of ''notas'' [''nota.xml'']) = 1
   \<and> fst (process_folder sample_floatify sample_to_dt
            (folder_with [''nota.xml''] (Document (Element ''raiz'' [] None []))) \<lparr> data = [] \<rparr>
            ''notas'')
     = Inr \<lparr> columns = [], rows = [] \<rparr>"
  by code_simp

text \<open>
  C5 as amended. For every successful run of \<^verbatim>\<open>process_folder\<close>, the number of rows of the
  table is the number of discovered XML files for which the extractor returned a record,
  a success or an error record; files for which it returned \<^verbatim>\<open>None\<close> have no row, so the
  number of rows is at most the number of discovered XML files.
\<close>

theorem row_count_is_number_of_records:
  assumes "os_listdir fs p = Inr names"
    and "fst (process_folder fl dt fs self p) = Inr df"
  shows "length (rows df)
           = length (filter (\<lambda>f. parse_xml_file fs f \<noteq> Inr None) (xml_files_of p names))
         \<and> length (rows df) \<le> length (xml_files_of p names)"
proof -
  have ex: "os_path_exists fs p" using assms(1) by (rule listdir_exists)
  have ne: "xml_files_of p names \<noteq> []"
    using assms ex by (auto simp: process_folder_cases split: if_splits)
  have df: "coerce_date dt (coerce_values fl (pd_DataFrame (collected fs (xml_files_of p names))))
              = Inr df"
    using assms ex ne by (simp add: process_folder_cases)
  have "length (rows df) = length (collected fs (xml_files_of p names))"
    using length_rows_coerce_date [OF df]
    by (simp add: length_rows_coerce_values length_rows_pd_DataFrame)
  then show ?thesis by (simp add: length_collected)
qed

theorem row_count_is_number_of_records_witness:
  "os_listdir (folder_with [''nota.xml'', ''outra.xml''] (Document (Element ''raiz'' [] None []))) ''notas''
     = Inr [''nota.xml'', ''outra.xml'']
   \<and> fst (process_folder sample_floatify sample_to_dt
            (folder_with [''nota.xml'', ''outra.xml''] (Document (Element ''raiz'' [] None [])))
            \<lparr> data = [] \<rparr> ''notas'')
     = Inr \<lparr> columns = [''arquivo'', ''erro''],
             rows = [[(''arquivo'', CStr ''outra.xml''),
                      (''erro'', CStr ''Error reading file notas/outra.xml'')]] \<rparr>
   \<and> length (filter (\<lambda>f. parse_xml_file
                 (folder_with [''nota.xml'', ''outra.xml''] (Document (Element ''raiz'' [] None []))) f
                 \<noteq> Inr None)
          (xml_files_of ''notas'' [''nota.xml'', ''outra.xml''])) = 1
   \<and> length (xml_files_of ''notas'' [''nota.xml'', ''outra.xml'']) = 2"
proof -
  let ?fs = "folder_with [''nota.xml'', ''outra.xml''] (Document (Element ''raiz'' [] None []))"
  have listed: "os_listdir ?fs ''notas'' = Inr [''nota.xml'', ''outra.xml'']"
    by (simp add: os_listdir_def folder_with_def)
  have run: "fst (process_folder sample_floatify sample_to_dt ?fs \<lparr> data = [] \<rparr> ''notas'')
               = Inr \<lparr> columns = [''arquivo'', ''erro''],
                       rows = [[(''arquivo'', CStr ''outra.xml''),
                                (''erro'', CStr ''Error reading file notas/outra.xml'')]] \<rparr>"
    by code_simp
  have two: "length (xml_files_of ''notas'' [''nota.xml'', ''outra.xml'']) = 2"
    by code_simp
  show ?thesis
    using row_count_is_number_of_records [OF listed run] listed run two by simp
qed

text \<open>
  C6 fails on the code. The sample invoice without namespaces and its namespaced twin
  give different records: number 100 and \<^verbatim>\<open>Entrada\<close> for the first, an empty number and
  outbound for the second.
\<close>

theorem namespaced_twin_differs:
  "parse_xml_file (folder_with [''nota.xml''] (Document invoice_plain)) ''notas/nota.xml''
     = Inr (Some [(''arquivo'', PStr ''nota.xml''),
          (''numero_nf'', PStr ''100''),
          (''serie'', PStr []),
          (''data_emissao'', PStr []),
          (''chave_acesso'', PStr ''123''),
          (''emit_cnpj'', PStr []),
          (''emit_nome'', PStr []),
          (''emit_fantasia'', PStr []),
          (''dest_cnpj'', PStr []),
          (''dest_nome'', PStr []),
          (''valor_produtos'', PStr []),
          (''valor_desconto'', PStr []),
          (''valor_frete'', PStr []),
          (''valor_total'', PStr []),
          (''valor_icms'', PStr []),
          (''valor_ipi'', PStr []),
          (''natureza_operacao'', PStr []),
          (''tipo_operacao'', PStr ''Entrada''),
          (''qtd_itens'', PInt 0)])
   \<and> parse_xml_file (folder_with [''nota.xml''] (Document (qualify invoice_plain))) ''notas/nota.xml''
     = Inr (Some [(''arquivo'', PStr ''nota.xml''),
          (''numero_nf'', PStr []),
          (''serie'', PStr []),
          (''data_emissao'', PStr []),
          (''chave_acesso'', PStr ''123''),
          (''emit_cnpj'', PStr []),
          (''emit_nome'', PStr []),
          (''emit_fantasia'', PStr []),
          (''dest_cnpj'', PStr []),
          (''dest_nome'', PStr []),
          (''valor_produtos'', PStr []),
          (''valor_desconto'', PStr []),
          (''valor_frete'', PStr []),
          (''valor_total'', PStr []),
          (''valor_icms'', PStr []),
          (''valor_ipi'', PStr []),
          (''natureza_operacao'', PStr []),
          (''tipo_operacao'', PStr outbound),
          (''qtd_itens'', PInt 0)])"
  by code_simp

text \<open>
  C7 fails on the code. An invoice without namespaces whose totals block holds the total
  value \<^verbatim>\<open>150.50\<close>, a string the number parser reads, does not get that number in its
  monetary column: the extractor returns the error record \<^verbatim>\<open>invalid descendant\<close>, and the
  table has no monetary column at all.
\<close>

theorem total_value_lost:
  "first_by_local_name ''vNF'' invoice_totals_info
     = Some (Element ''vNF'' [] (Some ''150.50'') [])
   \<and> floatify_hundredths ''150.50'' = Some 15050
   \<and> parse_xml_file (folder_with [''nota.xml''] (Document invoice_totals)) ''notas/nota.xml''
     = Inr (Some [(''arquivo'', PStr ''nota.xml''), (''erro'', PStr ''invalid descendant'')])
   \<and> fst (process_folder floatify_hundredths sample_to_dt
            (folder_with [''nota.xml''] (Document invoice_totals)) \<lparr> data = [] \<rparr> ''notas'')
     = Inr \<lparr> columns = [''arquivo'', ''erro''],
             rows = [[(''arquivo'', CStr ''nota.xml''),
                      (''erro'', CStr ''invalid descendant'')]] \<rparr>"
  by code_simp

text \<open>
  C8 as stated fails: for the \<^verbatim>\<open>Id\<close> value \<^verbatim>\<open>NFe35NFe1\<close> the access key is \<^verbatim>\<open>351\<close>, not the
  value with its prefix stripped, \<^verbatim>\<open>35NFe1\<close>.
\<close>

theorem access_key_counterexample:
  "attrib_get (Element ''infNFe'' [(''Id'', ''NFe35NFe1'')] None []) ''Id'' [] = ''NFe35NFe1''
   \<and> remove_prefix ''NFe'' ''NFe35NFe1'' = ''35NFe1''
   \<and> parse_xml_file (folder_with [''nota.xml''] (Document invoice_key)) ''notas/nota.xml''
     = Inr (Some [(''arquivo'', PStr ''nota.xml''),
          (''numero_nf'', PStr []),
          (''serie'', PStr []),
          (''data_emissao'', PStr []),
          (''chave_acesso'', PStr ''351''),
          (''emit_cnpj'', PStr []),
          (''emit_nome'', PStr []),
          (''emit_fantasia'', PStr []),
          (''dest_cnpj'', PStr []),
          (''dest_nome'', PStr []),
          (''valor_produtos'', PStr []),
          (''valor_desconto'', PStr []),
          (''valor_frete'', PStr []),
          (''valor_total'', PStr []),
          (''valor_icms'', PStr []),
          (''valor_ipi'', PStr []),
          (''natureza_operacao'', PStr []),
          (''tipo_operacao'', PStr outbound),
          (''qtd_itens'', PInt 0)])"
  by code_simp

text \<open>
  C8 as amended. For every extracted record, the access key is the value of the \<^verbatim>\<open>Id\<close>
  attribute of the invoice-information node (the empty string when the attribute is
  absent) with every occurrence of \<^verbatim>\<open>NFe\<close> removed; when \<^verbatim>\<open>NFe\<close> does not occur in the value
  beyond a leading one, this is the value with the prefix \<^verbatim>\<open>NFe\<close> stripped when present.
\<close>

theorem access_key_removes_every_NFe:
  assumes "etree_parse fs file_path = Inr root"
    and "locate_infNFe root = Inr (Some nfe_info)"
    and "parse_xml_body fs file_path = Inr (Some d)"
  shows "map_of d ''chave_acesso''
           = Some (PStr (replace (attrib_get nfe_info ''Id'' []) ''NFe'' []))
         \<and> (\<not> occurs ''NFe'' (remove_prefix ''NFe'' (attrib_get nfe_info ''Id'' [])) \<longrightarrow>
              map_of d ''chave_acesso''
                = Some (PStr (remove_prefix ''NFe'' (attrib_get nfe_info ''Id'' []))))"
proof -
  have "extract_data file_path nfe_info = Inr d"
    using assms by (auto simp: parse_xml_body_def bnd_def split: sum.splits)
  then have key: "map_of d ''chave_acesso''
           = Some (PStr (replace (attrib_get nfe_info ''Id'' []) ''NFe'' []))"
    by (rule extract_data_access_key)
  show ?thesis
    using key replace_is_remove_prefix [of "''NFe''" "attrib_get nfe_info ''Id'' []"]
    by simp
qed

theorem access_key_removes_every_NFe_witness:
  "etree_parse (folder_with [''nota.xml''] (Document invoice_plain)) ''notas/nota.xml''
     = Inr invoice_plain
   \<and> locate_infNFe invoice_plain = Inr (Some invoice_info)
   \<and> attrib_get invoice_info ''Id'' [] = ''NFe123''
   \<and> \<not> occurs ''NFe'' (remove_prefix ''NFe'' ''NFe123'')
   \<and> (\<exists>d. parse_xml_body (folder_with [''nota.xml''] (Document invoice_plain)) ''notas/nota.xml''
             = Inr (Some d)
          \<and> map_of d ''chave_acesso'' = Some (PStr ''123''))"
proof -
  let ?fs = "folder_with [''nota.xml''] (Document invoice_plain)"
  have parsed: "etree_parse ?fs ''notas/nota.xml'' = Inr invoice_plain"
    by (simp add: etree_parse_def folder_with_def)
  have located: "locate_infNFe invoice_plain = Inr (Some invoice_info)"
    by code_simp
  have idv: "attrib_get invoice_info ''Id'' [] = ''NFe123''"
    by (simp add: invoice_info_def)
  have clean: "\<not> occurs ''NFe'' (remove_prefix ''NFe'' ''NFe123'')"
    by (simp add: remove_prefix_def)
  have stripped: "remove_prefix ''NFe'' ''NFe123'' = ''123''"
    by (simp add: remove_prefix_def)
  obtain d where body: "parse_xml_body ?fs ''notas/nota.xml'' = Inr (Some d)"
  proof -
    have "\<exists>d. parse_xml_body ?fs ''notas/nota.xml'' = Inr (Some d)"
      by (simp add: parse_xml_body_def bnd_def parsed located extract_data_def find_def findall_def
            xpath_tokenizer_def resolve_prefix_def push_def get_text_def or_else_def invoice_info_def
            strip_def is_space_def)
    then show ?thesis using that by blast
  qed
  show ?thesis
    using access_key_removes_every_NFe [OF parsed located body] parsed located idv clean stripped body
    by (simp add: replace_def)
qed

text \<open>
  C9 as stated fails: for a path that exists and is a file, not a directory,
  \<^verbatim>\<open>process_folder\<close> does not raise the invalid-input error.
\<close>

theorem not_a_directory_counterexample:
  "os_path_exists (folder_with [''nota.xml''] (Malformed [])) ''notas/nota.xml''
   \<and> (folder_with [''nota.xml''] (Malformed [])) ''notas/nota.xml'' = Some (RegularFile (Malformed []))
   \<and> \<not> raises_ValueError (fst (process_folder sample_floatify sample_to_dt
          (folder_with [''nota.xml''] (Malformed [])) \<lparr> data = [] \<rparr> ''notas/nota.xml''))"
  by (simp add: folder_with_def os_path_exists_def os_listdir_def process_folder_def)

text \<open>
  C9 as amended. For a path that exists and is a file, not a directory, \<^verbatim>\<open>process_folder\<close>
  fails with the \<^verbatim>\<open>NotADirectoryError\<close> of \<^verbatim>\<open>os.listdir\<close>, an operating-system error and not
  the \<^verbatim>\<open>ValueError\<close> of the two invalid-input cases; no file is processed.
\<close>

theorem not_a_directory_raises_os_error:
  assumes "fs p = Some (RegularFile c)"
  shows "os_path_exists fs p
         \<and> (\<exists>m. process_folder fl dt fs self p
                  = (Inl (NotADirectoryError m), self \<lparr> data := [] \<rparr>))
         \<and> \<not> raises_ValueError (fst (process_folder fl dt fs self p))"
  using assms by (simp add: os_path_exists_def os_listdir_def process_folder_cases)

theorem not_a_directory_raises_os_error_witness:
  "(folder_with [''nota.xml''] (Malformed [])) ''notas/nota.xml'' = Some (RegularFile (Malformed []))
   \<and> process_folder sample_floatify sample_to_dt
        (folder_with [''nota.xml''] (Malformed [])) \<lparr> data = [] \<rparr> ''notas/nota.xml''
      = (Inl (NotADirectoryError ''[Errno 20] Not a directory: notas/nota.xml''), \<lparr> data = [] \<rparr>)"
  using not_a_directory_raises_os_error
          [of "folder_with [''nota.xml''] (Malformed [])" "''notas/nota.xml''" "Malformed []"
              sample_floatify sample_to_dt "\<lparr> data = [] \<rparr>"]
  by (simp add: folder_with_def os_path_exists_def os_listdir_def process_folder_cases)

text \<open>
  C10. \<^verbatim>\<open>process_folder\<close> empties the buffer before anything else: the table it returns,
  the exception it raises and the buffer it leaves are the same from any two parsers, so a
  second call on one parser returns what a fresh parser returns for the folder of that call.
\<close>

theorem process_folder_resets_buffer:
  "process_folder fl dt fs self1 p = process_folder fl dt fs self2 p
   \<and> fst (process_folder fl dt fs (snd (process_folder fl dt fs0 self1 p0)) p)
       = fst (process_folder fl dt fs \<lparr> data = [] \<rparr> p)"
  using process_folder_any_state [of fl dt fs self1 p self2]
        process_folder_any_state [of fl dt fs "snd (process_folder fl dt fs0 self1 p0)" p "\<lparr> data = [] \<rparr>"]
  by simp

theorem process_folder_resets_buffer_witness:
  "fst (process_folder sample_floatify sample_to_dt
          (folder_with [''leia.txt''] (Malformed []))
          (snd (process_folder sample_floatify sample_to_dt
                  (folder_with [''nota.xml''] (Document invoice_plain)) \<lparr> data = [] \<rparr> ''notas''))
          ''notas'')
   = fst (process_folder sample_floatify sample_to_dt
            (folder_with [''leia.txt''] (Malformed [])) \<lparr> data = [] \<rparr> ''notas'')"
  using process_folder_resets_buffer
          [of sample_floatify sample_to_dt "folder_with [''leia.txt''] (Malformed [])"
              "\<lparr> data = [] \<rparr>" "''notas''"
              "\<lparr> data = [] \<rparr>" "folder_with [''nota.xml''] (Document invoice_plain)" "''notas''"]
  by simp

end
